theory Spec2Isabelle
  imports Main "HOL-Library.Word"
begin

section \<open>JavaScript values at the adapter boundary\<close>

text \<open>
  The adapter of \<^verbatim>\<open>src/index.ts\<close> forwards configuration objects to the host object
  \<^verbatim>\<open>dd\<close> and hands the host's callback payloads to a promise. Its parameters and
  payloads are typed \<^verbatim>\<open>any\<close> or are plain object shapes, so they are modelled by one type
  of dynamically typed values. A mapping is an association list of its own enumerable
  properties in creation order, with distinct keys. Numbers are the integers from
  \<open>-2\<^sup>5\<^sup>3\<close> to \<open>2\<^sup>5\<^sup>3 - 1\<close>, as signed 54-bit words: each of them is a JavaScript
  number and is written in plain decimal digits (the adapter's own numeric literals are 0,
  30, 15, 400, 2000 and 1). Strings are lists of 8-bit code units.

  \<open>JObj kvs\<close> is an ordinary object, whose prototype is \<^verbatim>\<open>Object.prototype\<close>.
  \<open>JObjWith p kvs\<close> is an object whose prototype has been replaced, by \<^verbatim>\<open>null\<close>
  (\<open>p = None\<close>) or by the object \<open>q\<close> (\<open>p = Some q\<close>); \<^verbatim>\<open>Object.assign\<close> makes such
  an object when a source has an own key \<^verbatim>\<open>__proto__\<close>. The properties of the built-in
  prototypes themselves are not modelled, except the accessor \<^verbatim>\<open>__proto__\<close> in writes: no key
  the adapter reads (\<^verbatim>\<open>Content-Type\<close>, \<^verbatim>\<open>headers\<close>, \<^verbatim>\<open>index\<close>, \<^verbatim>\<open>authCode\<close>, \<^verbatim>\<open>date\<close>,
  \<^verbatim>\<open>id\<close>, \<^verbatim>\<open>data\<close>) is a property of a built-in prototype.
\<close>

datatype jsval =
    JUndefined
  | JNull
  | JBool bool
  | JNum "54 word"
  | JStr string
  | JArr "jsval list"
  | JObj "(string \<times> jsval) list"
  | JObjWith "jsval option" "(string \<times> jsval) list"

type_synonym obj = "(string \<times> jsval) list"

datatype js_error = TypeError | NotRepresented

text \<open>Reading \<^verbatim>\<open>o[k]\<close> on a mapping: a missing key reads as \<^verbatim>\<open>undefined\<close>.\<close>

definition obj_get :: "obj \<Rightarrow> string \<Rightarrow> jsval" where
  "obj_get kvs k = (case map_of kvs k of None \<Rightarrow> JUndefined | Some v \<Rightarrow> v)"

text \<open>Writing \<^verbatim>\<open>o[k] = v\<close> on a mapping: an existing key keeps its place, a new key is
  added at the end.\<close>

fun obj_set :: "string \<Rightarrow> 'a \<Rightarrow> (string \<times> 'a) list \<Rightarrow> (string \<times> 'a) list" where
  "obj_set k v [] = [(k, v)]"
| "obj_set k v ((k', v') # kvs) = (if k' = k then (k, v) # kvs else (k', v') # obj_set k v kvs)"

text \<open>JavaScript's \<^verbatim>\<open>ToBoolean\<close>, as used by \<^verbatim>\<open>!headers["Content-Type"]\<close>.\<close>

fun truthy :: "jsval \<Rightarrow> bool" where
  "truthy JUndefined = False"
| "truthy JNull = False"
| "truthy (JBool b) = b"
| "truthy (JNum n) = (n \<noteq> 0)"
| "truthy (JStr s) = (s \<noteq> [])"
| "truthy (JArr xs) = True"
| "truthy (JObj kvs) = True"
| "truthy (JObjWith p kvs) = True"

subsection \<open>Decimal numerals and the enumeration order of own properties\<close>

definition digit_char :: "nat \<Rightarrow> char" where
  "digit_char n = ''0123456789'' ! (n mod 10)"

fun show_nat :: "nat \<Rightarrow> string" where
  "show_nat n = (if n < 10 then [digit_char n] else show_nat (n div 10) @ [digit_char (n mod 10)])"

text \<open>The decimal numeral of an integer; a number \<open>n\<close> of the model is written
  \<open>show_int (sint n)\<close>.\<close>

definition show_int :: "int \<Rightarrow> string" where
  "show_int i = (if i < 0 then CHR ''-'' # show_nat (nat (- i)) else show_nat (nat i))"

definition is_digit :: "char \<Rightarrow> bool" where
  "is_digit c = (c \<in> set ''0123456789'')"

definition digits_value :: "string \<Rightarrow> nat" where
  "digits_value s = foldl (\<lambda>a c. 10 * a + (of_char c - 48)) 0 s"

text \<open>An array index is a canonical decimal numeral below \<open>2\<^sup>3\<^sup>2 - 1\<close>. Own properties are
  enumerated with the array indices first, in ascending order, and the other keys after
  them in creation order.\<close>

definition array_index :: "string \<Rightarrow> nat option" where
  "array_index k =
     (if k \<noteq> [] \<and> list_all is_digit k \<and> (k = ''0'' \<or> hd k \<noteq> CHR ''0'')
         \<and> digits_value k < 4294967295
      then Some (digits_value k) else None)"

definition index_rank :: "string \<times> 'a \<Rightarrow> nat" where
  "index_rank p = (case array_index (fst p) of None \<Rightarrow> 0 | Some n \<Rightarrow> n)"

definition js_order :: "(string \<times> 'a) list \<Rightarrow> (string \<times> 'a) list" where
  "js_order kvs =
     sort_key index_rank (filter (\<lambda>p. array_index (fst p) \<noteq> None) kvs)
       @ filter (\<lambda>p. array_index (fst p) = None) kvs"

text \<open>The own enumerable properties of a value, as \<^verbatim>\<open>Object.assign\<close> and the object spread
  read them from a source: a mapping has its entries, an array and a string have their
  indices, every other value has none.\<close>

fun own_props :: "jsval \<Rightarrow> obj" where
  "own_props (JObj kvs) = js_order kvs"
| "own_props (JObjWith p kvs) = js_order kvs"
| "own_props (JArr xs) = zip (map show_nat [0..<length xs]) xs"
| "own_props (JStr s) = zip (map show_nat [0..<length s]) (map (\<lambda>c. JStr [c]) s)"
| "own_props v = []"

subsection \<open>Writing a property with \<^verbatim>\<open>[[Set]]\<close>\<close>

text \<open>
  \<^verbatim>\<open>Object.assign(target, source)\<close> writes every own property of the source to the target
  with \<^verbatim>\<open>[[Set]]\<close>, in enumeration order. The target is the object \<^verbatim>\<open>{}\<close> that
  \<^verbatim>\<open>getHeaders\<close> has just made, so it is described by its prototype and its own properties.
  A write to a key the target has as an own property replaces the value. A write to any
  other key makes a new own property, with one exception: the key \<^verbatim>\<open>__proto__\<close>, when the
  prototype chain of the target leads to the accessor of \<^verbatim>\<open>Object.prototype\<close> before an
  object with an own property of that name. The accessor makes no property: it replaces the
  prototype of the target when the value is an object or \<^verbatim>\<open>null\<close> and does nothing
  otherwise.
\<close>

datatype prototype = ObjectPrototype | Replaced "jsval option"

fun is_object :: "jsval \<Rightarrow> bool" where
  "is_object (JObj kvs) = True"
| "is_object (JObjWith p kvs) = True"
| "is_object (JArr xs) = True"
| "is_object v = False"

text \<open>Does a write of \<^verbatim>\<open>__proto__\<close> that has arrived at this object of the prototype chain
  reach the accessor? An own property of that name stops it, and so does the end of the
  chain; the chain of an ordinary object and of an array ends in \<^verbatim>\<open>Object.prototype\<close>.\<close>

fun reaches_setter :: "jsval \<Rightarrow> bool" where
  "reaches_setter (JObj kvs) = (''__proto__'' \<notin> fst ` set kvs)"
| "reaches_setter (JObjWith None kvs) = False"
| "reaches_setter (JObjWith (Some q) kvs) = (''__proto__'' \<notin> fst ` set kvs \<and> reaches_setter q)"
| "reaches_setter v = True"

fun setter_in_chain :: "prototype \<Rightarrow> bool" where
  "setter_in_chain ObjectPrototype = True"
| "setter_in_chain (Replaced None) = False"
| "setter_in_chain (Replaced (Some q)) = reaches_setter q"

definition assign_entry :: "prototype \<times> obj \<Rightarrow> string \<times> jsval \<Rightarrow> prototype \<times> obj" where
  "assign_entry target p =
     (if fst p \<in> fst ` set (snd target) then (fst target, obj_set (fst p) (snd p) (snd target))
      else if fst p = ''__proto__'' \<and> setter_in_chain (fst target) then
        (if is_object (snd p) then (Replaced (Some (snd p)), snd target)
         else if snd p = JNull then (Replaced None, snd target)
         else target)
      else (fst target, obj_set (fst p) (snd p) (snd target)))"

definition object_assign :: "prototype \<times> obj \<Rightarrow> jsval \<Rightarrow> prototype \<times> obj" where
  "object_assign target source = foldl assign_entry target (own_props source)"

fun make_object :: "prototype \<times> obj \<Rightarrow> jsval" where
  "make_object (ObjectPrototype, kvs) = JObj kvs"
| "make_object (Replaced p, kvs) = JObjWith p kvs"

section \<open>The header normalizer\<close>

text \<open>
  \<^verbatim>\<open>function getHeaders(origin: any) {
    if (Array.isArray(origin)) {
      const obj = {};
      forEach(origin, v => { Object.assign(obj, v); });
      return obj;
    }
    return origin;
  }\<close>
  The callback never returns \<^verbatim>\<open>false\<close>, so lodash's \<^verbatim>\<open>forEach\<close> visits every element, from
  the first to the last.
\<close>

definition getHeaders :: "jsval \<Rightarrow> jsval" where
  "getHeaders origin =
     (case origin of
        JArr vs \<Rightarrow> make_object (foldl object_assign (ObjectPrototype, []) vs)
      | _ \<Rightarrow> origin)"

section \<open>The built-in \<^verbatim>\<open>JSON.stringify\<close>\<close>

text \<open>
  \<^verbatim>\<open>JSON.stringify\<close> on the values of the model. A string is quoted, with the quotation mark,
  the backslash and the control characters below \<open>0x20\<close> escaped. In an array,
  \<^verbatim>\<open>undefined\<close> is written \<^verbatim>\<open>null\<close>; in a mapping, a property with that value is left
  out; at the top level the result is \<^verbatim>\<open>undefined\<close> instead of a text. Only own properties
  are written, whatever the prototype.
\<close>

definition hex_char :: "nat \<Rightarrow> char" where
  "hex_char n = ''0123456789abcdef'' ! (n mod 16)"

definition json_escape :: "char \<Rightarrow> string" where
  "json_escape c =
     (if c = CHR 0x22 then [CHR 0x5C, CHR 0x22]
      else if c = CHR 0x5C then [CHR 0x5C, CHR 0x5C]
      else if c = CHR 0x08 then [CHR 0x5C, CHR ''b'']
      else if c = CHR 0x0C then [CHR 0x5C, CHR ''f'']
      else if c = CHR 0x0A then [CHR 0x5C, CHR ''n'']
      else if c = CHR 0x0D then [CHR 0x5C, CHR ''r'']
      else if c = CHR 0x09 then [CHR 0x5C, CHR ''t'']
      else if (of_char c :: nat) < 32
        then [CHR 0x5C, CHR ''u'', CHR ''0'', CHR ''0'',
              hex_char (of_char c div 16), hex_char (of_char c mod 16)]
      else [c])"

definition json_quote :: "string \<Rightarrow> string" where
  "json_quote s = CHR 0x22 # concat (map json_escape s) @ [CHR 0x22]"

fun join_commas :: "string list \<Rightarrow> string" where
  "join_commas [] = []"
| "join_commas [t] = t"
| "join_commas (t # ts) = t @ CHR '','' # join_commas ts"

definition json_member :: "string \<times> string option \<Rightarrow> string list" where
  "json_member p =
     (case snd p of None \<Rightarrow> [] | Some t \<Rightarrow> [json_quote (fst p) @ CHR '':'' # t])"

fun json_text :: "jsval \<Rightarrow> string option" where
  "json_text JUndefined = None"
| "json_text JNull = Some ''null''"
| "json_text (JBool b) = Some (if b then ''true'' else ''false'')"
| "json_text (JNum n) = Some (show_int (sint n))"
| "json_text (JStr s) = Some (json_quote s)"
| "json_text (JArr xs) =
     Some (CHR ''['' #
       join_commas (map (\<lambda>x. case json_text x of None \<Rightarrow> ''null'' | Some t \<Rightarrow> t) xs)
       @ '']'')"
| "json_text (JObj kvs) =
     Some (CHR ''{'' #
       join_commas (concat (map json_member (js_order (map (\<lambda>(k, v). (k, json_text v)) kvs))))
       @ ''}'')"
| "json_text (JObjWith p kvs) =
     Some (CHR ''{'' #
       join_commas (concat (map json_member (js_order (map (\<lambda>(k, v). (k, json_text v)) kvs))))
       @ ''}'')"

definition JSON_stringify :: "jsval \<Rightarrow> jsval" where
  "JSON_stringify v = (case json_text v of None \<Rightarrow> JUndefined | Some t \<Rightarrow> JStr t)"

section \<open>Promises, callbacks and host calls\<close>

text \<open>
  The promise executor passes two functions, \<^verbatim>\<open>resolve\<close> and \<^verbatim>\<open>reject\<close>; a promise is settled
  by the first call of either and later calls change nothing. Host payloads are data, so
  the adoption of a thenable by \<^verbatim>\<open>resolve\<close> does not arise.
\<close>

datatype promise = Pending | Fulfilled jsval | Rejected jsval

fun resolve :: "jsval \<Rightarrow> promise \<Rightarrow> promise" where
  "resolve v Pending = Fulfilled v"
| "resolve v p = p"

fun reject :: "jsval \<Rightarrow> promise \<Rightarrow> promise" where
  "reject v Pending = Rejected v"
| "reject v p = p"

text \<open>
  The functions the adapter installs as \<^verbatim>\<open>success\<close> and \<^verbatim>\<open>fail\<close>:
  \<^item> \<open>Resolve\<close> is \<^verbatim>\<open>resolve\<close> itself and \<open>Reject\<close> is \<^verbatim>\<open>reject\<close> itself;
  \<^item> \<open>ResolvePayload\<close> is \<^verbatim>\<open>(res) => { resolve(res); }\<close>;
  \<^item> \<open>ResolveField f\<close> is \<^verbatim>\<open>(res) => { resolve(res.f); }\<close>;
  \<^item> \<open>ResolveNormalized\<close> is
    \<^verbatim>\<open>(res) => { res.headers = getHeaders(res.headers); resolve(res); }\<close>.

  \<open>Foreign n\<close> is a function of the caller's, told apart by \<open>n\<close>. The functions
  \<^verbatim>\<open>resolve\<close> and \<^verbatim>\<open>reject\<close> of a promise are known to the adapter's callbacks only, so a
  call of a foreign function leaves the promise as it is.
\<close>

datatype closure =
    Resolve
  | Reject
  | ResolvePayload
  | ResolveField string
  | ResolveNormalized
  | Foreign nat

text \<open>Reading \<^verbatim>\<open>res.k\<close>: \<^verbatim>\<open>undefined\<close> and \<^verbatim>\<open>null\<close> have no properties and the read throws;
  an array and a string have their indices and \<^verbatim>\<open>length\<close>; an object with a replaced
  prototype has its own properties and then those of the prototype.\<close>

fun get_prop :: "jsval \<Rightarrow> string \<Rightarrow> js_error + jsval" where
  "get_prop JUndefined k = Inl TypeError"
| "get_prop JNull k = Inl TypeError"
| "get_prop (JObj kvs) k = Inr (obj_get kvs k)"
| "get_prop (JObjWith None kvs) k = Inr (obj_get kvs k)"
| "get_prop (JObjWith (Some q) kvs) k =
     (case map_of kvs k of
        Some v \<Rightarrow> Inr v
      | None \<Rightarrow> get_prop q k)"
| "get_prop (JArr xs) k =
     Inr (if k = ''length'' then JNum (of_nat (length xs)) else obj_get (own_props (JArr xs)) k)"
| "get_prop (JStr s) k =
     Inr (if k = ''length'' then JNum (of_nat (length s)) else obj_get (own_props (JStr s)) k)"
| "get_prop v k = Inr JUndefined"

text \<open>Writing \<^verbatim>\<open>res.k = v\<close> in module (strict) code, for the one key the adapter writes on
  a payload, \<^verbatim>\<open>headers\<close>, which no prototype intercepts: the write throws on
  \<^verbatim>\<open>undefined\<close>, \<^verbatim>\<open>null\<close> and on a primitive value. An array that carries a named property
  is not a value of the model.\<close>

fun set_prop :: "jsval \<Rightarrow> string \<Rightarrow> jsval \<Rightarrow> js_error + jsval" where
  "set_prop (JObj kvs) k v = Inr (JObj (obj_set k v kvs))"
| "set_prop (JObjWith p kvs) k v = Inr (JObjWith p (obj_set k v kvs))"
| "set_prop (JArr xs) k v = Inl NotRepresented"
| "set_prop res k v = Inl TypeError"

text \<open>Calling one of the adapter's callbacks with a payload, on the promise it belongs to.
  \<open>Inl\<close> is an exception thrown by the callback before it settles the promise.\<close>

fun invoke :: "closure \<Rightarrow> jsval \<Rightarrow> promise \<Rightarrow> js_error + promise" where
  "invoke Resolve res p = Inr (resolve res p)"
| "invoke Reject res p = Inr (reject res p)"
| "invoke ResolvePayload res p = Inr (resolve res p)"
| "invoke (ResolveField f) res p =
     (case get_prop res f of
        Inl e \<Rightarrow> Inl e
      | Inr v \<Rightarrow> Inr (resolve v p))"
| "invoke ResolveNormalized res p =
     (case get_prop res ''headers'' of
        Inl e \<Rightarrow> Inl e
      | Inr h \<Rightarrow>
          (case set_prop res ''headers'' (getHeaders h) of
             Inl e \<Rightarrow> Inl e
           | Inr res' \<Rightarrow> Inr (resolve res' p)))"
| "invoke (Foreign n) res p = Inr p"

text \<open>
  A property of the configuration object passed to a host entry point is a data value, one
  of the adapter's callbacks, or a reference to a mapping the caller still holds (only the
  request headers are passed that way, see below). A host call is the name of the entry
  point of \<^verbatim>\<open>dd\<close> together with the configuration object it receives.
\<close>

datatype property = Data jsval | Callback closure | Ref nat

type_synonym config = "(string \<times> property) list"

record host_call =
  entry :: string
  config :: config

text \<open>The host calls \<^verbatim>\<open>config.success(payload)\<close> or \<^verbatim>\<open>config.fail(payload)\<close>; calling something
  that is not a function throws.\<close>

definition host_calls :: "host_call \<Rightarrow> string \<Rightarrow> jsval \<Rightarrow> promise \<Rightarrow> js_error + promise" where
  "host_calls c name payload p =
     (case map_of (config c) name of
        Some (Callback f) \<Rightarrow> invoke f payload p
      | _ \<Rightarrow> Inl TypeError)"

text \<open>The promise an operation returns is pending. These are its states after the host has
  called the \<^verbatim>\<open>success\<close> callback, or the \<^verbatim>\<open>fail\<close> callback, of the call with a payload.\<close>

definition host_succeeds :: "host_call \<Rightarrow> jsval \<Rightarrow> js_error + promise" where
  "host_succeeds c payload = host_calls c ''success'' payload Pending"

definition host_fails :: "host_call \<Rightarrow> jsval \<Rightarrow> js_error + promise" where
  "host_fails c reason = host_calls c ''fail'' reason Pending"

text \<open>Building a configuration object: a shorthand property \<^verbatim>\<open>{k}\<close> of a destructured
  parameter, the same with a default value (which applies when the property is
  \<^verbatim>\<open>undefined\<close>), and the spread \<^verbatim>\<open>{...opt, success: s, fail: reject}\<close>, which copies the own
  properties of \<open>opt\<close> and then writes the two callbacks.\<close>

definition pick :: "obj \<Rightarrow> string \<Rightarrow> string \<times> property" where
  "pick opt k = (k, Data (obj_get opt k))"

definition pick_default :: "obj \<Rightarrow> string \<Rightarrow> jsval \<Rightarrow> string \<times> property" where
  "pick_default opt k d = (k, Data (if obj_get opt k = JUndefined then d else obj_get opt k))"

definition spread :: "obj \<Rightarrow> config" where
  "spread opt = foldl (\<lambda>acc (k, v). obj_set k (Data v) acc) [] (own_props (JObj opt))"

definition spread_with :: "obj \<Rightarrow> closure \<Rightarrow> config" where
  "spread_with opt s = obj_set ''fail'' (Callback Reject) (obj_set ''success'' (Callback s) (spread opt))"

section \<open>The wrapped asynchronous operations\<close>

text \<open>
  The repository holds several revisions of \<^verbatim>\<open>src/index.ts\<close>. The definitions of this section
  follow the revision that has all operations, \<^verbatim>\<open>src/unnamed/part_002\<close> lines 1 to 1015. Each
  operation runs \<^verbatim>\<open>new Promise((resolve, reject) => { dd.entry(config) })\<close>: it returns a
  pending promise and the host call below has been made. The argument \<open>opt\<close> is the
  mapping of the own properties of the parameter object (the empty mapping where the
  parameter has the default \<^verbatim>\<open>{}\<close> and is omitted).
\<close>

text \<open>\<^verbatim>\<open>alert({title, content, buttonText}): dd.alert({title, content, buttonText, success: resolve, fail: reject})\<close>\<close>

definition alert :: "obj \<Rightarrow> host_call" where
  "alert opt =
     \<lparr>entry = ''alert'',
      config =
       [pick opt ''title'',
        pick opt ''content'',
        pick opt ''buttonText'',
        (''success'', Callback Resolve),
        (''fail'', Callback Reject)]\<rparr>"

text \<open>\<^verbatim>\<open>confirm(opt): dd.confirm({...opt, success: resolve, fail: reject})\<close>\<close>

definition confirm :: "obj \<Rightarrow> host_call" where
  "confirm opt = \<lparr>entry = ''confirm'', config = spread_with opt Resolve\<rparr>"

text \<open>\<^verbatim>\<open>showToast({content, type = 'none', duration = 2000} = {}): dd.showToast({content, type, duration, success: resolve, fail: reject})\<close>\<close>

definition showToast :: "obj \<Rightarrow> host_call" where
  "showToast opt =
     \<lparr>entry = ''showToast'',
      config =
       [pick opt ''content'',
        pick_default opt ''type'' (JStr ''none''),
        pick_default opt ''duration'' (JNum 2000),
        (''success'', Callback Resolve),
        (''fail'', Callback Reject)]\<rparr>"

text \<open>\<^verbatim>\<open>showLoading({content, delay = 0} = {}): dd.showLoading({content, delay, success: resolve, fail: reject})\<close>\<close>

definition showLoading :: "obj \<Rightarrow> host_call" where
  "showLoading opt =
     \<lparr>entry = ''showLoading'',
      config =
       [pick opt ''content'',
        pick_default opt ''delay'' (JNum 0),
        (''success'', Callback Resolve),
        (''fail'', Callback Reject)]\<rparr>"

text \<open>\<^verbatim>\<open>showActionSheet(opt): dd.showActionSheet({...opt, success: (res) => { resolve(res.index); }, fail: reject})\<close>\<close>

definition showActionSheet :: "obj \<Rightarrow> host_call" where
  "showActionSheet opt = \<lparr>entry = ''showActionSheet'', config = spread_with opt (ResolveField ''index'')\<rparr>"

text \<open>\<^verbatim>\<open>getAuthCode(): dd.getAuthCode({success(res) { resolve(res.authCode); }, fail: reject})\<close>\<close>

definition getAuthCode :: host_call where
  "getAuthCode =
     \<lparr>entry = ''getAuthCode'',
      config = [(''success'', Callback (ResolveField ''authCode'')), (''fail'', Callback Reject)]\<rparr>"

text \<open>\<^verbatim>\<open>uploadFile(opt): dd.uploadFile({...opt, success: (res) => { resolve(res); }, fail: reject})\<close>\<close>

definition uploadFile :: "obj \<Rightarrow> host_call" where
  "uploadFile opt = \<lparr>entry = ''uploadFile'', config = spread_with opt ResolvePayload\<rparr>"

text \<open>\<^verbatim>\<open>downloadFile(opt): dd.downloadFile({...opt, success: (res) => { resolve(res); }, fail: reject})\<close>\<close>

definition downloadFile :: "obj \<Rightarrow> host_call" where
  "downloadFile opt = \<lparr>entry = ''downloadFile'', config = spread_with opt ResolvePayload\<rparr>"

text \<open>\<^verbatim>\<open>redirectTo(url): dd.redirectTo({url, success: resolve, fail: reject})\<close>\<close>

definition redirectTo :: "jsval \<Rightarrow> host_call" where
  "redirectTo url =
     \<lparr>entry = ''redirectTo'',
      config =
       [(''url'', Data url),
        (''success'', Callback Resolve),
        (''fail'', Callback Reject)]\<rparr>"

text \<open>\<^verbatim>\<open>navigateTo(url): dd.navigateTo({url, success: resolve, fail: reject})\<close>\<close>

definition navigateTo :: "jsval \<Rightarrow> host_call" where
  "navigateTo url =
     \<lparr>entry = ''navigateTo'',
      config =
       [(''url'', Data url),
        (''success'', Callback Resolve),
        (''fail'', Callback Reject)]\<rparr>"

text \<open>\<^verbatim>\<open>reLaunch(url): dd.reLaunch({url, success: resolve, fail: reject})\<close>\<close>

definition reLaunch :: "jsval \<Rightarrow> host_call" where
  "reLaunch url =
     \<lparr>entry = ''reLaunch'',
      config =
       [(''url'', Data url),
        (''success'', Callback Resolve),
        (''fail'', Callback Reject)]\<rparr>"

text \<open>\<^verbatim>\<open>switchTab(url): dd.switchTab({url, success: resolve, fail: reject})\<close>\<close>

definition switchTab :: "jsval \<Rightarrow> host_call" where
  "switchTab url =
     \<lparr>entry = ''switchTab'',
      config =
       [(''url'', Data url),
        (''success'', Callback Resolve),
        (''fail'', Callback Reject)]\<rparr>"

text \<open>\<^verbatim>\<open>setNavigationBar({title, backgroundColor, reset = false} = {}): dd.setNavigationBar({title, backgroundColor, reset, success: resolve, fail: reject})\<close>\<close>

definition setNavigationBar :: "obj \<Rightarrow> host_call" where
  "setNavigationBar opt =
     \<lparr>entry = ''setNavigationBar'',
      config =
       [pick opt ''title'',
        pick opt ''backgroundColor'',
        pick_default opt ''reset'' (JBool False),
        (''success'', Callback Resolve),
        (''fail'', Callback Reject)]\<rparr>"

text \<open>\<^verbatim>\<open>datePicker(opt): dd.datePicker({...opt, success(res) { resolve(res.date); }, fail: reject})\<close>\<close>

definition datePicker :: "obj \<Rightarrow> host_call" where
  "datePicker opt = \<lparr>entry = ''datePicker'', config = spread_with opt (ResolveField ''date'')\<rparr>"

text \<open>\<^verbatim>\<open>getLocation({cacheTimeout = 30, type} = {}): dd.getLocation({cacheTimeout, type, success: (res) => { resolve(res); }, fail: reject})\<close>\<close>

definition getLocation :: "obj \<Rightarrow> host_call" where
  "getLocation opt =
     \<lparr>entry = ''getLocation'',
      config =
       [pick_default opt ''cacheTimeout'' (JNum 30),
        pick opt ''type'',
        (''success'', Callback ResolvePayload),
        (''fail'', Callback Reject)]\<rparr>"

text \<open>\<^verbatim>\<open>openLocation({longitude, latitude, name, address, scale = 15}): dd.openLocation({longitude, latitude, name, address, scale, success: resolve, fail: reject})\<close>\<close>

definition openLocation :: "obj \<Rightarrow> host_call" where
  "openLocation opt =
     \<lparr>entry = ''openLocation'',
      config =
       [pick opt ''longitude'',
        pick opt ''latitude'',
        pick opt ''name'',
        pick opt ''address'',
        pick_default opt ''scale'' (JNum 15),
        (''success'', Callback Resolve),
        (''fail'', Callback Reject)]\<rparr>"

text \<open>\<^verbatim>\<open>scan(type = 'qr'): dd.scan({type, success: (res) => { resolve(res); }, fail: reject})\<close>\<close>

definition scan :: "jsval \<Rightarrow> host_call" where
  "scan type =
     \<lparr>entry = ''scan'',
      config =
       [(''type'', Data (if type = JUndefined then JStr ''qr'' else type)),
        (''success'', Callback ResolvePayload),
        (''fail'', Callback Reject)]\<rparr>"

text \<open>\<^verbatim>\<open>complexChoose(opt): dd.complexChoose({...opt, success: (res) => { resolve(res); }, fail: reject})\<close>\<close>

definition complexChoose :: "obj \<Rightarrow> host_call" where
  "complexChoose opt = \<lparr>entry = ''complexChoose'', config = spread_with opt ResolvePayload\<rparr>"

text \<open>\<^verbatim>\<open>chooseDepartments(opt): dd.chooseDepartments({...opt, success: (res) => { resolve(res); }, fail: reject})\<close>\<close>

definition chooseDepartments :: "obj \<Rightarrow> host_call" where
  "chooseDepartments opt = \<lparr>entry = ''chooseDepartments'', config = spread_with opt ResolvePayload\<rparr>"

text \<open>\<^verbatim>\<open>createGroupChat(users): dd.createGroupChat({users, success: (res) => { resolve(res.id); }, fail: reject})\<close>\<close>

definition createGroupChat :: "jsval \<Rightarrow> host_call" where
  "createGroupChat users =
     \<lparr>entry = ''createGroupChat'',
      config =
       [(''users'', Data users),
        (''success'', Callback (ResolveField ''id'')),
        (''fail'', Callback Reject)]\<rparr>"

text \<open>\<^verbatim>\<open>choosePhonebook({title, multiple = true, limitTips, maxUsers}): dd.choosePhonebook({title, multiple, limitTips, maxUsers, success: (res) => { resolve(res); }, fail: reject})\<close>\<close>

definition choosePhonebook :: "obj \<Rightarrow> host_call" where
  "choosePhonebook opt =
     \<lparr>entry = ''choosePhonebook'',
      config =
       [pick opt ''title'',
        pick_default opt ''multiple'' (JBool True),
        pick opt ''limitTips'',
        pick opt ''maxUsers'',
        (''success'', Callback ResolvePayload),
        (''fail'', Callback Reject)]\<rparr>"

text \<open>\<^verbatim>\<open>chooseExternalUsers({title, multiple = true, limitTips, maxUsers, pickedUsers, disabledUsers, requiredUsers}): dd.chooseExternalUsers({title, multiple, limitTips, maxUsers, pickedUsers, disabledUsers, requiredUsers, success: (res) => { resolve(res); }, fail: reject})\<close>\<close>

definition chooseExternalUsers :: "obj \<Rightarrow> host_call" where
  "chooseExternalUsers opt =
     \<lparr>entry = ''chooseExternalUsers'',
      config =
       [pick opt ''title'',
        pick_default opt ''multiple'' (JBool True),
        pick opt ''limitTips'',
        pick opt ''maxUsers'',
        pick opt ''pickedUsers'',
        pick opt ''disabledUsers'',
        pick opt ''requiredUsers'',
        (''success'', Callback ResolvePayload),
        (''fail'', Callback Reject)]\<rparr>"

text \<open>\<^verbatim>\<open>editExternalUser(opt): dd.editExternalUser({...opt, success: (res) => { resolve(res); }, fail: reject})\<close>\<close>

definition editExternalUser :: "obj \<Rightarrow> host_call" where
  "editExternalUser opt = \<lparr>entry = ''editExternalUser'', config = spread_with opt ResolvePayload\<rparr>"

text \<open>\<^verbatim>\<open>chooseUserFromList({title, users, isShowCompanyName = false, disabledUsers}): dd.chooseUserFromList({title, users, isShowCompanyName, disabledUsers, success: (res) => { resolve(res); }, fail: reject})\<close>\<close>

definition chooseUserFromList :: "obj \<Rightarrow> host_call" where
  "chooseUserFromList opt =
     \<lparr>entry = ''chooseUserFromList'',
      config =
       [pick opt ''title'',
        pick opt ''users'',
        pick_default opt ''isShowCompanyName'' (JBool False),
        pick opt ''disabledUsers'',
        (''success'', Callback ResolvePayload),
        (''fail'', Callback Reject)]\<rparr>"

text \<open>\<^verbatim>\<open>setStorage(opt): dd.setStorage({...opt, success: resolve, fail: reject})\<close>\<close>

definition setStorage :: "obj \<Rightarrow> host_call" where
  "setStorage opt = \<lparr>entry = ''setStorage'', config = spread_with opt Resolve\<rparr>"

text \<open>\<^verbatim>\<open>getStorage(key): dd.getStorage({key, success: (res) => { resolve(res.data); }, fail: reject})\<close>\<close>

definition getStorage :: "jsval \<Rightarrow> host_call" where
  "getStorage key =
     \<lparr>entry = ''getStorage'',
      config =
       [(''key'', Data key),
        (''success'', Callback (ResolveField ''data'')),
        (''fail'', Callback Reject)]\<rparr>"

text \<open>\<^verbatim>\<open>removeStorage(key): dd.removeStorage({key, success: resolve, fail: reject})\<close>\<close>

definition removeStorage :: "jsval \<Rightarrow> host_call" where
  "removeStorage key =
     \<lparr>entry = ''removeStorage'',
      config =
       [(''key'', Data key),
        (''success'', Callback Resolve),
        (''fail'', Callback Reject)]\<rparr>"

subsection \<open>Operations that differ in the other revisions\<close>

text \<open>
  In \<^verbatim>\<open>src/src/index.ts\<close> (and in \<^verbatim>\<open>src/unnamed/part_001\<close> and the second revision held in
  \<^verbatim>\<open>src/unnamed/part_002\<close>) the toast and the loading operation pass their options on with a
  spread and have no default values:
  \<^verbatim>\<open>showToast(opt): dd.showToast({...opt, success: resolve, fail: reject})\<close> and
  \<^verbatim>\<open>showLoading(opt): dd.showLoading({...opt, success: resolve, fail: reject})\<close>.
\<close>

definition showToast_index_ts :: "obj \<Rightarrow> host_call" where
  "showToast_index_ts opt = \<lparr>entry = ''showToast'', config = spread_with opt Resolve\<rparr>"

definition showLoading_index_ts :: "obj \<Rightarrow> host_call" where
  "showLoading_index_ts opt = \<lparr>entry = ''showLoading'', config = spread_with opt Resolve\<rparr>"

text \<open>
  In \<^verbatim>\<open>src/src/index.ts\<close> lines 125 to 142 the success callback of the action sheet is
  \<^verbatim>\<open>(res: {index: number}) => { resolve(res); }\<close>, under the comment
  \<^verbatim>\<open>@returns index\<close>; the other revisions that have the operation call
  \<^verbatim>\<open>resolve(res.index)\<close>.
\<close>

definition showActionSheet_index_ts :: "obj \<Rightarrow> host_call" where
  "showActionSheet_index_ts opt =
     \<lparr>entry = ''showActionSheet'', config = spread_with opt ResolvePayload\<rparr>"

text \<open>
  In \<^verbatim>\<open>src/unnamed/part_000\<close> the system information is asked for through callbacks:
  \<^verbatim>\<open>dd.getSystemInfoSync({success(res) { resolve(res); }, fail: reject})\<close>.
\<close>

definition getSystemInfoSync_part_000 :: host_call where
  "getSystemInfoSync_part_000 =
     \<lparr>entry = ''getSystemInfoSync'',
      config = [(''success'', Callback ResolvePayload), (''fail'', Callback Reject)]\<rparr>"

text \<open>
  In the second revision held in \<^verbatim>\<open>src/unnamed/part_002\<close> (lines 1380 to 1392) the
  navigation bar is set with a spread:
  \<^verbatim>\<open>setNavigationBar(opt): dd.setNavigationBar({...opt, success: resolve, fail: reject})\<close>.
\<close>

definition setNavigationBar_spread :: "obj \<Rightarrow> host_call" where
  "setNavigationBar_spread opt = \<lparr>entry = ''setNavigationBar'', config = spread_with opt Resolve\<rparr>"

section \<open>The network request\<close>

text \<open>
  \<^verbatim>\<open>export function httpRequest(opt: {url: string; method: string; headers?: any; data?: any}) {
    let { headers = {}, data, ...rest } = opt;
    if (!headers["Content-Type"]) {
      headers["Content-Type"] = "application/json";
      data = JSON.stringify(data);
    }
    return new Promise((resolve, reject) => {
      dd.httpRequest({
        headers,
        data,
        success: (res) => { res.headers = getHeaders(res.headers); resolve(res); },
        fail: reject,
        ...rest
      });
    });
  }\<close>
  The function is the same in every revision. It writes to the object bound to
  \<^verbatim>\<open>headers\<close>, which is the caller's own object whenever \<^verbatim>\<open>opt.headers\<close> is not
  \<^verbatim>\<open>undefined\<close>. Header mappings therefore live in a store and are passed by reference:
  \<open>cells s r\<close> is the mapping at address \<open>r\<close> and every address below \<open>fresh s\<close> is in use.
  A \<^verbatim>\<open>headers\<close> value that is \<^verbatim>\<open>null\<close> or a primitive makes the test or the assignment
  throw a \<^verbatim>\<open>TypeError\<close> before any promise is made.

  The argument is described by the value of \<^verbatim>\<open>opt.headers\<close>, the value of \<^verbatim>\<open>opt.data\<close>
  (\<^verbatim>\<open>undefined\<close> when there is none) and \<open>others\<close>, the other own properties of \<^verbatim>\<open>opt\<close> in
  the order the caller made them: \<^verbatim>\<open>url\<close>, \<^verbatim>\<open>method\<close> and whatever else the object
  carries, a function included. The rest pattern collects them, without the two named
  keys, and the spread writes them into the configuration after the four properties of
  the literal, so a property of the caller's named \<^verbatim>\<open>success\<close> or \<^verbatim>\<open>fail\<close> takes the place
  of the adapter's callback.
\<close>

record store =
  cells :: "nat \<Rightarrow> obj"
  fresh :: nat

definition alloc :: "obj \<Rightarrow> store \<Rightarrow> nat \<times> store" where
  "alloc kvs s = (fresh s, s\<lparr>cells := (cells s)(fresh s := kvs), fresh := Suc (fresh s)\<rparr>)"

definition store_set :: "nat \<Rightarrow> string \<Rightarrow> jsval \<Rightarrow> store \<Rightarrow> store" where
  "store_set r k v s = s\<lparr>cells := (cells s)(r := obj_set k v (cells s r))\<rparr>"

text \<open>A store in which no mapping has been created yet.\<close>

definition empty_store :: store where
  "empty_store = \<lparr>cells = (\<lambda>r. []), fresh = 0\<rparr>"

datatype headers_arg = Absent | Mapping nat | NotAnObject

record http_opt =
  headers :: headers_arg
  data :: jsval
  others :: config

text \<open>\<^verbatim>\<open>let { headers = {}, data, ...rest } = opt\<close>: the rest object has the other own
  properties of \<^verbatim>\<open>opt\<close>, copied in enumeration order.\<close>

definition rest_of :: "http_opt \<Rightarrow> config" where
  "rest_of opt = js_order (filter (\<lambda>p. fst p \<noteq> ''headers'' \<and> fst p \<noteq> ''data'') (others opt))"

text \<open>The object literal \<^verbatim>\<open>{headers, data, success: ..., fail: reject, ...rest}\<close>: the four
  properties are made first and the spread then writes every property of \<^verbatim>\<open>rest\<close>,
  replacing the value of a key that is already there.\<close>

definition request_config :: "nat \<Rightarrow> jsval \<Rightarrow> config \<Rightarrow> config" where
  "request_config hdrs body rest =
     foldl (\<lambda>acc p. obj_set (fst p) (snd p) acc)
       [(''headers'', Ref hdrs),
        (''data'', Data body),
        (''success'', Callback ResolveNormalized),
        (''fail'', Callback Reject)]
       rest"

definition httpRequest :: "store \<Rightarrow> http_opt \<Rightarrow> js_error + store \<times> host_call" where
  "httpRequest s opt =
     (case headers opt of
        NotAnObject \<Rightarrow> Inl TypeError
      | given \<Rightarrow>
          let rest = rest_of opt;
              (hdrs, s1) = (case given of Mapping r \<Rightarrow> (r, s) | _ \<Rightarrow> alloc [] s);
              (s2, body) =
                (if \<not> truthy (obj_get (cells s1 hdrs) ''Content-Type'')
                 then (store_set hdrs ''Content-Type'' (JStr ''application/json'') s1,
                       JSON_stringify (data opt))
                 else (s1, data opt))
          in Inr (s2, \<lparr>entry = ''httpRequest'', config = request_config hdrs body rest\<rparr>))"

text \<open>What a call of \<^verbatim>\<open>httpRequest\<close> has handed to the host under a key, and the state of
  the promise it returned after the host has called \<^verbatim>\<open>config.success\<close> or \<^verbatim>\<open>config.fail\<close>
  with a payload. A call that threw has made no host call and no promise.\<close>

definition forwarded :: "js_error + store \<times> host_call \<Rightarrow> string \<Rightarrow> property option" where
  "forwarded result k = (case result of Inl e \<Rightarrow> None | Inr (s', c) \<Rightarrow> map_of (config c) k)"

definition then_host_succeeds ::
    "js_error + store \<times> host_call \<Rightarrow> jsval \<Rightarrow> js_error + promise" where
  "then_host_succeeds result payload =
     (case result of Inl e \<Rightarrow> Inl e | Inr (s', c) \<Rightarrow> host_succeeds c payload)"

definition then_host_fails ::
    "js_error + store \<times> host_call \<Rightarrow> jsval \<Rightarrow> js_error + promise" where
  "then_host_fails result reason =
     (case result of Inl e \<Rightarrow> Inl e | Inr (s', c) \<Rightarrow> host_fails c reason)"

section \<open>Properties of the header normalizer\<close>

lemma js_order_single: "js_order [p] = [p]"
  by (simp add: js_order_def)

lemma assign_entry_other_key:
  "k \<noteq> ''__proto__'' \<Longrightarrow> assign_entry (pr, own) (k, v) = (pr, obj_set k v own)"
  by (simp add: assign_entry_def)

lemma object_assign_single:
  "k \<noteq> ''__proto__'' \<Longrightarrow> object_assign (pr, own) (JObj [(k, v)]) = (pr, obj_set k v own)"
  by (simp add: object_assign_def js_order_single assign_entry_other_key)

lemma foldl_object_assign_singles:
  "''__proto__'' \<notin> fst ` set kvs \<Longrightarrow>
     foldl object_assign (pr, acc) (map (\<lambda>p. JObj [p]) kvs)
       = (pr, foldl (\<lambda>a p. obj_set (fst p) (snd p) a) acc kvs)"
proof (induction kvs arbitrary: acc)
  case Nil
  show ?case by simp
next
  case (Cons p kvs)
  obtain k v where p: "p = (k, v)" by (cases p)
  from Cons.prems have k: "k \<noteq> ''__proto__''" and rest: "''__proto__'' \<notin> fst ` set kvs"
    by (auto simp: p)
  show ?case by (simp add: p object_assign_single [OF k] Cons.IH [OF rest])
qed

lemma map_of_obj_set: "map_of (obj_set k v kvs) = (map_of kvs)(k \<mapsto> v)"
  by (induction kvs) (auto simp: fun_eq_iff)

lemma keys_obj_set: "fst ` set (obj_set k v kvs) = insert k (fst ` set kvs)"
proof -
  have "fst ` set (obj_set k v kvs) = dom (map_of (obj_set k v kvs))"
    by (simp add: dom_map_of_conv_image_fst)
  also have "\<dots> = insert k (dom (map_of kvs))"
    by (simp add: map_of_obj_set)
  finally show ?thesis
    by (simp add: dom_map_of_conv_image_fst)
qed

lemma distinct_obj_set: "distinct (map fst kvs) \<Longrightarrow> distinct (map fst (obj_set k v kvs))"
  by (induction kvs) (auto simp: keys_obj_set)

lemma map_of_merge:
  "map_of (foldl (\<lambda>a p. obj_set (fst p) (snd p) a) acc kvs) k =
     (case map_of (rev kvs) k of None \<Rightarrow> map_of acc k | Some v \<Rightarrow> Some v)"
proof (induction kvs arbitrary: acc)
  case Nil
  show ?case by simp
next
  case (Cons p kvs)
  show ?case
    by (simp add: Cons.IH map_of_obj_set map_add_def split: option.splits)
qed

lemma distinct_merge:
  "distinct (map fst acc) \<Longrightarrow> distinct (map fst (foldl (\<lambda>a p. obj_set (fst p) (snd p) a) acc kvs))"
  by (induction kvs arbitrary: acc) (simp_all add: distinct_obj_set)

lemma getHeaders_not_array: "(\<And>vs. origin \<noteq> JArr vs) \<Longrightarrow> getHeaders origin = origin"
  by (cases origin) (auto simp: getHeaders_def)

lemma getHeaders_make_object: "getHeaders (make_object t) = make_object t"
proof -
  obtain pr own where t: "t = (pr, own)" by (cases t)
  show ?thesis by (cases pr) (simp_all add: t getHeaders_def)
qed

lemma getHeaders_idem: "getHeaders (getHeaders origin) = getHeaders origin"
proof (cases origin)
  case (JArr vs)
  then have "getHeaders origin = make_object (foldl object_assign (ObjectPrototype, []) vs)"
    by (simp add: getHeaders_def)
  then show ?thesis by (simp add: getHeaders_make_object)
qed (simp_all add: getHeaders_def)

text \<open>
  Claim C1, as stated, fails for the key \<^verbatim>\<open>__proto__\<close>: \<^verbatim>\<open>Object.assign\<close> writes the entry of
  the single-key mapping \<^verbatim>\<open>{"__proto__": "x"}\<close> through the accessor of \<^verbatim>\<open>Object.prototype\<close>,
  which makes no property, so the result is the empty mapping and the key of the entry is
  not in it.
\<close>

theorem getHeaders_drops_proto_key:
  "getHeaders (JArr [JObj [(''__proto__'', JStr ''x'')]]) = JObj []
   \<and> getHeaders (JArr [JObj [(''__proto__'', JStr ''x'')]]) \<noteq> JObj [(''__proto__'', JStr ''x'')]"
  by (simp add: getHeaders_def object_assign_def assign_entry_def js_order_single)

text \<open>
  Claim C1, amended. Applied to a sequence of single-key mappings none of whose keys is
  \<^verbatim>\<open>__proto__\<close>, \<^verbatim>\<open>getHeaders\<close> returns the mapping obtained by writing the entries from left
  to right into an empty mapping; in the result every key occurs once and reads as the
  value of its last entry in the sequence. Applied to a value that is not a sequence it
  returns that value unchanged. Normalizing a normalized value returns it unchanged, for
  every input.
\<close>

theorem getHeaders_merge_passthrough_idempotent:
  "(''__proto__'' \<notin> fst ` set kvs \<longrightarrow>
      getHeaders (JArr (map (\<lambda>p. JObj [p]) kvs)) = JObj (foldl (\<lambda>a p. obj_set (fst p) (snd p) a) [] kvs)
      \<and> obj_get (foldl (\<lambda>a p. obj_set (fst p) (snd p) a) [] kvs) k
          = (case map_of (rev kvs) k of None \<Rightarrow> JUndefined | Some v \<Rightarrow> v)
      \<and> distinct (map fst (foldl (\<lambda>a p. obj_set (fst p) (snd p) a) [] kvs)))
   \<and> ((\<forall>vs. origin \<noteq> JArr vs) \<longrightarrow> getHeaders origin = origin)
   \<and> getHeaders (getHeaders x) = getHeaders x"
proof (intro conjI impI)
  assume "''__proto__'' \<notin> fst ` set kvs"
  then show "getHeaders (JArr (map (\<lambda>p. JObj [p]) kvs)) = JObj (foldl (\<lambda>a p. obj_set (fst p) (snd p) a) [] kvs)"
    by (simp add: getHeaders_def foldl_object_assign_singles)
next
  show "obj_get (foldl (\<lambda>a p. obj_set (fst p) (snd p) a) [] kvs) k
       = (case map_of (rev kvs) k of None \<Rightarrow> JUndefined | Some v \<Rightarrow> v)"
    by (simp add: obj_get_def map_of_merge split: option.splits)
next
  show "distinct (map fst (foldl (\<lambda>a p. obj_set (fst p) (snd p) a) [] kvs))"
    by (simp add: distinct_merge)
next
  assume "\<forall>vs. origin \<noteq> JArr vs"
  then show "getHeaders origin = origin"
    by (simp add: getHeaders_not_array)
next
  show "getHeaders (getHeaders x) = getHeaders x"
    by (rule getHeaders_idem)
qed

theorem getHeaders_merge_passthrough_idempotent_witness:
  "''__proto__'' \<notin> fst ` set [(''A'', JStr ''1''), (''B'', JStr ''2'')]
   \<and> getHeaders (JArr [JObj [(''A'', JStr ''1'')], JObj [(''B'', JStr ''2'')]])
     = JObj [(''A'', JStr ''1''), (''B'', JStr ''2'')]
   \<and> ''__proto__'' \<notin> fst ` set [(''A'', JStr ''1''), (''A'', JStr ''2'')]
   \<and> getHeaders (JArr [JObj [(''A'', JStr ''1'')], JObj [(''A'', JStr ''2'')]])
     = JObj [(''A'', JStr ''2'')]
   \<and> (\<forall>vs. JObj [(''A'', JStr ''1'')] \<noteq> JArr vs)
   \<and> getHeaders (JObj [(''A'', JStr ''1'')]) = JObj [(''A'', JStr ''1'')]
   \<and> getHeaders (getHeaders (JArr [JObj [(''A'', JStr ''1'')], JObj [(''A'', JStr ''2'')]]))
     = JObj [(''A'', JStr ''2'')]"
  using getHeaders_merge_passthrough_idempotent
          [of "[(''A'', JStr ''1''), (''B'', JStr ''2'')]" "''A''" "JObj [(''A'', JStr ''1'')]"
              "JArr [JObj [(''A'', JStr ''1'')], JObj [(''A'', JStr ''2'')]]"]
        getHeaders_merge_passthrough_idempotent
          [of "[(''A'', JStr ''1''), (''A'', JStr ''2'')]" "''A''" "JObj [(''A'', JStr ''1'')]"
              "JArr [JObj [(''A'', JStr ''1'')], JObj [(''A'', JStr ''2'')]]"]
  by (simp add: getHeaders_def)

section \<open>Properties of the network request\<close>

lemma set_js_order: "set (js_order kvs) = set kvs"
  by (auto simp: js_order_def)

lemma map_of_spread_absent:
  "k \<notin> fst ` set rest \<Longrightarrow>
     map_of (foldl (\<lambda>acc p. obj_set (fst p) (snd p) acc) base rest) k = map_of base k"
proof -
  assume "k \<notin> fst ` set rest"
  then have "map_of (rev rest) k = None"
    by (simp add: map_of_eq_None_iff)
  then show ?thesis
    by (simp add: map_of_merge)
qed

lemma rest_of_keys: "fst ` set (rest_of opt) = fst ` set (others opt) - {''headers'', ''data''}"
  by (auto simp: rest_of_def set_js_order)

lemma request_config_headers: "map_of (request_config h b (rest_of opt)) ''headers'' = Some (Ref h)"
  by (simp add: request_config_def map_of_spread_absent rest_of_keys)

lemma request_config_data: "map_of (request_config h b (rest_of opt)) ''data'' = Some (Data b)"
  by (simp add: request_config_def map_of_spread_absent rest_of_keys)

lemma request_config_success:
  "''success'' \<notin> fst ` set (others opt) \<Longrightarrow>
     map_of (request_config h b (rest_of opt)) ''success'' = Some (Callback ResolveNormalized)"
  by (simp add: request_config_def map_of_spread_absent rest_of_keys)

lemma request_config_fail:
  "''fail'' \<notin> fst ` set (others opt) \<Longrightarrow>
     map_of (request_config h b (rest_of opt)) ''fail'' = Some (Callback Reject)"
  by (simp add: request_config_def map_of_spread_absent rest_of_keys)

lemma httpRequest_given:
  assumes "headers opt = Mapping r"
  shows "httpRequest s opt =
     Inr (if truthy (obj_get (cells s r) ''Content-Type'') then s
          else store_set r ''Content-Type'' (JStr ''application/json'') s,
          \<lparr>entry = ''httpRequest'',
           config =
            request_config r
              (if truthy (obj_get (cells s r) ''Content-Type'') then data opt
               else JSON_stringify (data opt))
              (rest_of opt)\<rparr>)"
  using assms by (simp add: httpRequest_def)

lemma httpRequest_absent:
  assumes "headers opt = Absent"
  shows "httpRequest s opt =
     Inr (store_set (fresh s) ''Content-Type'' (JStr ''application/json'') (snd (alloc [] s)),
          \<lparr>entry = ''httpRequest'',
           config = request_config (fresh s) (JSON_stringify (data opt)) (rest_of opt)\<rparr>)"
  using assms by (simp add: httpRequest_def alloc_def obj_get_def)

lemma httpRequest_not_object:
  "headers opt = NotAnObject \<Longrightarrow> httpRequest s opt = Inl TypeError"
  by (simp add: httpRequest_def)

lemma obj_get_obj_set_same: "obj_get (obj_set k v kvs) k = v"
  by (induction kvs) (auto simp: obj_get_def)

lemma cells_store_set_same: "cells (store_set r k v s) r = obj_set k v (cells s r)"
  by (simp add: store_set_def)

lemma JSON_stringify_example:
  "JSON_stringify (JObj [(''x'', JNum 1)])
     = JStr [CHR ''{'', CHR 0x22, CHR ''x'', CHR 0x22, CHR '':'', CHR ''1'', CHR ''}'']"
  by (simp add: JSON_stringify_def js_order_def json_member_def json_quote_def json_escape_def
        show_int_def digit_char_def array_index_def is_digit_def)

lemma JSON_stringify_text:
  "JSON_stringify (JStr ''a=1'') = JStr [CHR 0x22, CHR ''a'', CHR ''='', CHR ''1'', CHR 0x22]"
  by (simp add: JSON_stringify_def json_quote_def json_escape_def)

text \<open>
  Claim C2, as stated, fails for a content type given under another spelling of the key:
  with the headers \<^verbatim>\<open>{"content-type": "text/plain"}\<close>, which carry an explicit content type
  that is not JSON, the body \<^verbatim>\<open>a=1\<close> is not forwarded untouched; the host receives its JSON
  text, the five characters \<^verbatim>\<open>"a=1"\<close>.
\<close>

theorem httpRequest_lower_case_content_type_is_encoded:
  "forwarded
     (httpRequest
        (empty_store\<lparr>cells := (cells empty_store)(0 := [(''content-type'', JStr ''text/plain'')]), fresh := 1\<rparr>)
        \<lparr>headers = Mapping 0, data = JStr ''a=1'',
         others = [(''url'', Data (JStr ''/api'')), (''method'', Data (JStr ''POST''))]\<rparr>)
     ''data''
     = Some (Data (JStr [CHR 0x22, CHR ''a'', CHR ''='', CHR ''1'', CHR 0x22]))
   \<and> forwarded
     (httpRequest
        (empty_store\<lparr>cells := (cells empty_store)(0 := [(''content-type'', JStr ''text/plain'')]), fresh := 1\<rparr>)
        \<lparr>headers = Mapping 0, data = JStr ''a=1'',
         others = [(''url'', Data (JStr ''/api'')), (''method'', Data (JStr ''POST''))]\<rparr>)
     ''data''
     \<noteq> Some (Data (JStr ''a=1''))"
  by (simp add: forwarded_def httpRequest_given request_config_data JSON_stringify_text obj_get_def)

text \<open>
  Claim C2, amended. When \<^verbatim>\<open>httpRequest\<close> is called without headers, or with a headers
  mapping whose entry at the key \<^verbatim>\<open>Content-Type\<close> is missing or falsy, the host receives
  headers whose \<^verbatim>\<open>Content-Type\<close> is \<^verbatim>\<open>application/json\<close> and a data field that is
  \<^verbatim>\<open>JSON.stringify\<close> of the caller's data; the body \<^verbatim>\<open>{"x":1}\<close> is encoded as the seven
  characters \<^verbatim>\<open>{"x":1}\<close>. When the headers mapping has a truthy entry at the key
  \<^verbatim>\<open>Content-Type\<close>, the host receives the caller's data as it is.
\<close>

theorem httpRequest_content_type_default:
  "((headers opt = Absent \<or> (headers opt = Mapping r \<and> \<not> truthy (obj_get (cells s r) ''Content-Type'')))
      \<longrightarrow> (\<exists>s' c h. httpRequest s opt = Inr (s', c)
             \<and> map_of (config c) ''headers'' = Some (Ref h)
             \<and> obj_get (cells s' h) ''Content-Type'' = JStr ''application/json''
             \<and> map_of (config c) ''data'' = Some (Data (JSON_stringify (data opt)))))
   \<and> JSON_stringify (JObj [(''x'', JNum 1)])
       = JStr [CHR ''{'', CHR 0x22, CHR ''x'', CHR 0x22, CHR '':'', CHR ''1'', CHR ''}'']
   \<and> ((headers opt = Mapping r \<and> truthy (obj_get (cells s r) ''Content-Type''))
      \<longrightarrow> (\<exists>s' c. httpRequest s opt = Inr (s', c)
             \<and> map_of (config c) ''data'' = Some (Data (data opt))))"
proof (intro conjI impI)
  assume "headers opt = Absent \<or> (headers opt = Mapping r \<and> \<not> truthy (obj_get (cells s r) ''Content-Type''))"
  then show "\<exists>s' c h. httpRequest s opt = Inr (s', c)
             \<and> map_of (config c) ''headers'' = Some (Ref h)
             \<and> obj_get (cells s' h) ''Content-Type'' = JStr ''application/json''
             \<and> map_of (config c) ''data'' = Some (Data (JSON_stringify (data opt)))"
  proof
    assume "headers opt = Absent"
    then show ?thesis
      by (simp add: httpRequest_absent cells_store_set_same obj_get_obj_set_same
            request_config_headers request_config_data)
  next
    assume "headers opt = Mapping r \<and> \<not> truthy (obj_get (cells s r) ''Content-Type'')"
    then show ?thesis
      by (simp add: httpRequest_given cells_store_set_same obj_get_obj_set_same
            request_config_headers request_config_data)
  qed
next
  show "JSON_stringify (JObj [(''x'', JNum 1)])
       = JStr [CHR ''{'', CHR 0x22, CHR ''x'', CHR 0x22, CHR '':'', CHR ''1'', CHR ''}'']"
    by (rule JSON_stringify_example)
next
  assume "headers opt = Mapping r \<and> truthy (obj_get (cells s r) ''Content-Type'')"
  then show "\<exists>s' c. httpRequest s opt = Inr (s', c)
             \<and> map_of (config c) ''data'' = Some (Data (data opt))"
    by (simp add: httpRequest_given request_config_data)
qed

theorem httpRequest_content_type_default_witness:
  "headers \<lparr>headers = Absent, data = JObj [(''x'', JNum 1)],
             others = [(''url'', Data (JStr ''/api'')), (''method'', Data (JStr ''POST''))]\<rparr> = Absent
   \<and> (\<exists>s' c h. httpRequest empty_store
                  \<lparr>headers = Absent, data = JObj [(''x'', JNum 1)],
                   others = [(''url'', Data (JStr ''/api'')), (''method'', Data (JStr ''POST''))]\<rparr>
                 = Inr (s', c)
         \<and> map_of (config c) ''headers'' = Some (Ref h)
         \<and> obj_get (cells s' h) ''Content-Type'' = JStr ''application/json''
         \<and> map_of (config c) ''data''
             = Some (Data (JStr [CHR ''{'', CHR 0x22, CHR ''x'', CHR 0x22, CHR '':'', CHR ''1'', CHR ''}''])))
   \<and> truthy (obj_get (cells (empty_store\<lparr>cells := (cells empty_store)(0 := [(''Content-Type'', JStr ''text/plain'')]), fresh := 1\<rparr>) 0) ''Content-Type'')
   \<and> (\<exists>s' c. httpRequest (empty_store\<lparr>cells := (cells empty_store)(0 := [(''Content-Type'', JStr ''text/plain'')]), fresh := 1\<rparr>)
                  \<lparr>headers = Mapping 0, data = JObj [(''x'', JNum 1)],
                   others = [(''url'', Data (JStr ''/api'')), (''method'', Data (JStr ''POST''))]\<rparr>
                 = Inr (s', c)
         \<and> map_of (config c) ''data'' = Some (Data (JObj [(''x'', JNum 1)])))"
  using httpRequest_content_type_default
          [of "\<lparr>headers = Absent, data = JObj [(''x'', JNum 1)],
                others = [(''url'', Data (JStr ''/api'')), (''method'', Data (JStr ''POST''))]\<rparr>"
              0 empty_store]
        httpRequest_content_type_default
          [of "\<lparr>headers = Mapping 0, data = JObj [(''x'', JNum 1)],
                others = [(''url'', Data (JStr ''/api'')), (''method'', Data (JStr ''POST''))]\<rparr>"
              0
              "empty_store\<lparr>cells := (cells empty_store)(0 := [(''Content-Type'', JStr ''text/plain'')]), fresh := 1\<rparr>"]
  by (simp add: JSON_stringify_example obj_get_def)

lemma httpRequest_returns:
  "headers opt \<noteq> NotAnObject \<Longrightarrow> \<exists>s' c. httpRequest s opt = Inr (s', c)"
  by (cases "headers opt") (simp_all add: httpRequest_absent httpRequest_given)

lemma httpRequest_callbacks:
  "httpRequest s opt = Inr (s', c) \<Longrightarrow>
     (''success'' \<notin> fst ` set (others opt) \<longrightarrow>
        map_of (config c) ''success'' = Some (Callback ResolveNormalized))
     \<and> (''fail'' \<notin> fst ` set (others opt) \<longrightarrow>
        map_of (config c) ''fail'' = Some (Callback Reject))"
  by (cases "headers opt")
     (auto simp: httpRequest_absent httpRequest_given httpRequest_not_object
        request_config_success request_config_fail)

text \<open>
  When the caller's object has no property named \<^verbatim>\<open>success\<close>, the success callback the host
  receives is the adapter's: the promise is fulfilled with the response in which the
  \<^verbatim>\<open>headers\<close> field holds \<^verbatim>\<open>getHeaders\<close> of the original field, and every other field reads
  as before.
\<close>

lemma httpRequest_resolves_normalized_response:
  assumes "headers opt \<noteq> NotAnObject" and "''success'' \<notin> fst ` set (others opt)"
  shows "\<exists>s' c. httpRequest s opt = Inr (s', c)
        \<and> host_succeeds c (JObj res)
            = Inr (Fulfilled (JObj (obj_set ''headers'' (getHeaders (obj_get res ''headers'')) res)))
        \<and> obj_get (obj_set ''headers'' (getHeaders (obj_get res ''headers'')) res) ''headers''
            = getHeaders (obj_get res ''headers'')
        \<and> (\<forall>k. k \<noteq> ''headers'' \<longrightarrow>
              map_of (obj_set ''headers'' (getHeaders (obj_get res ''headers'')) res) k = map_of res k)"
proof -
  from assms(1) obtain s' c where c: "httpRequest s opt = Inr (s', c)"
    using httpRequest_returns by blast
  with assms(2) have cb: "map_of (config c) ''success'' = Some (Callback ResolveNormalized)"
    using httpRequest_callbacks by blast
  have "host_succeeds c (JObj res)
      = Inr (Fulfilled (JObj (obj_set ''headers'' (getHeaders (obj_get res ''headers'')) res)))"
    by (simp add: host_succeeds_def host_calls_def cb)
  moreover have "obj_get (obj_set ''headers'' (getHeaders (obj_get res ''headers'')) res) ''headers''
            = getHeaders (obj_get res ''headers'')"
    by (rule obj_get_obj_set_same)
  moreover have "\<forall>k. k \<noteq> ''headers'' \<longrightarrow>
              map_of (obj_set ''headers'' (getHeaders (obj_get res ''headers'')) res) k = map_of res k"
    by (simp add: map_of_obj_set)
  ultimately show ?thesis
    using c by blast
qed

text \<open>
  Claim C3. The promise of \<^verbatim>\<open>httpRequest\<close> should be fulfilled with the normalized response
  whenever the host calls the success callback. The configuration literal spreads
  \<^verbatim>\<open>rest\<close> after \<^verbatim>\<open>success\<close>, so for a caller's object that has a property \<^verbatim>\<open>success\<close> of
  its own the host receives the caller's function and not the adapter's callback: when
  the host calls it with a response, the promise stays pending.
\<close>

theorem httpRequest_own_success_key_never_resolves:
  "forwarded
     (httpRequest empty_store
        \<lparr>headers = Absent, data = JUndefined,
         others = [(''url'', Data (JStr ''/api'')), (''method'', Data (JStr ''GET'')),
                   (''success'', Callback (Foreign 0))]\<rparr>)
     ''success''
     = Some (Callback (Foreign 0))
   \<and> then_host_succeeds
     (httpRequest empty_store
        \<lparr>headers = Absent, data = JUndefined,
         others = [(''url'', Data (JStr ''/api'')), (''method'', Data (JStr ''GET'')),
                   (''success'', Callback (Foreign 0))]\<rparr>)
     (JObj [(''data'', JStr ''ok''), (''status'', JNum 200),
            (''headers'', JArr [JObj [(''A'', JStr ''1'')]])])
     = Inr Pending"
  by (simp add: forwarded_def then_host_succeeds_def host_succeeds_def host_calls_def
        httpRequest_absent request_config_def rest_of_def js_order_def array_index_def is_digit_def)

text \<open>
  Claim C9. When \<^verbatim>\<open>httpRequest\<close> is called with a headers mapping that has no truthy
  \<^verbatim>\<open>Content-Type\<close> entry, the write goes to the caller's own mapping: after the call the
  mapping at the caller's address has \<^verbatim>\<open>Content-Type\<close> set, the host is given that same
  address, and no other mapping has changed. When the entry is truthy the store, and with
  it the caller's mapping, is unchanged.
\<close>

theorem httpRequest_mutates_caller_headers:
  "((headers opt = Mapping r \<and> \<not> truthy (obj_get (cells s r) ''Content-Type''))
      \<longrightarrow> (\<exists>s' c. httpRequest s opt = Inr (s', c)
             \<and> map_of (config c) ''headers'' = Some (Ref r)
             \<and> cells s' r = obj_set ''Content-Type'' (JStr ''application/json'') (cells s r)
             \<and> (\<forall>r'. r' \<noteq> r \<longrightarrow> cells s' r' = cells s r')
             \<and> fresh s' = fresh s))
   \<and> ((headers opt = Mapping r \<and> truthy (obj_get (cells s r) ''Content-Type''))
      \<longrightarrow> (\<exists>s' c. httpRequest s opt = Inr (s', c)
             \<and> map_of (config c) ''headers'' = Some (Ref r)
             \<and> s' = s))"
  by (simp add: httpRequest_given store_set_def request_config_headers)

theorem httpRequest_mutates_caller_headers_witness:
  "\<not> truthy (obj_get (cells (empty_store\<lparr>cells := (cells empty_store)(0 := [(''Accept'', JStr ''*/*'')]), fresh := 1\<rparr>) 0) ''Content-Type'')
   \<and> (\<exists>s' c. httpRequest (empty_store\<lparr>cells := (cells empty_store)(0 := [(''Accept'', JStr ''*/*'')]), fresh := 1\<rparr>)
                 \<lparr>headers = Mapping 0, data = JNull,
                  others = [(''url'', Data (JStr ''/api'')), (''method'', Data (JStr ''POST''))]\<rparr>
               = Inr (s', c)
        \<and> map_of (config c) ''headers'' = Some (Ref 0)
        \<and> cells s' 0 = [(''Accept'', JStr ''*/*''), (''Content-Type'', JStr ''application/json'')])
   \<and> truthy (obj_get (cells (empty_store\<lparr>cells := (cells empty_store)(0 := [(''Content-Type'', JStr ''text/plain'')]), fresh := 1\<rparr>) 0) ''Content-Type'')
   \<and> (\<exists>s' c. httpRequest (empty_store\<lparr>cells := (cells empty_store)(0 := [(''Content-Type'', JStr ''text/plain'')]), fresh := 1\<rparr>)
                 \<lparr>headers = Mapping 0, data = JNull,
                  others = [(''url'', Data (JStr ''/api'')), (''method'', Data (JStr ''POST''))]\<rparr>
               = Inr (s', c)
        \<and> cells s' 0 = [(''Content-Type'', JStr ''text/plain'')])"
  using httpRequest_mutates_caller_headers
          [of "\<lparr>headers = Mapping 0, data = JNull,
                  others = [(''url'', Data (JStr ''/api'')), (''method'', Data (JStr ''POST''))]\<rparr>" 0
              "empty_store\<lparr>cells := (cells empty_store)(0 := [(''Accept'', JStr ''*/*'')]), fresh := 1\<rparr>"]
        httpRequest_mutates_caller_headers
          [of "\<lparr>headers = Mapping 0, data = JNull,
                  others = [(''url'', Data (JStr ''/api'')), (''method'', Data (JStr ''POST''))]\<rparr>" 0
              "empty_store\<lparr>cells := (cells empty_store)(0 := [(''Content-Type'', JStr ''text/plain'')]), fresh := 1\<rparr>"]
  by (auto simp add: obj_get_def)

text \<open>
  Claim C10. The presence test of \<^verbatim>\<open>httpRequest\<close> is the truthiness of the entry at the
  literal key \<^verbatim>\<open>Content-Type\<close>: the body is encoded and the header is set exactly when that
  entry is falsy. In particular, when the key is missing (whatever other keys, such as
  \<^verbatim>\<open>content-type\<close>, the mapping has) or its value is the empty string, the adapter sets
  \<^verbatim>\<open>Content-Type\<close> to \<^verbatim>\<open>application/json\<close> and encodes the body, and the caller's other
  entries stay in the mapping.
\<close>

theorem httpRequest_content_type_test_is_literal_truthiness:
  "(headers opt = Mapping r
      \<longrightarrow> (\<exists>s' c. httpRequest s opt = Inr (s', c)
             \<and> map_of (config c) ''data''
                 = Some (Data (if truthy (obj_get (cells s r) ''Content-Type'') then data opt
                               else JSON_stringify (data opt)))
             \<and> obj_get (cells s' r) ''Content-Type''
                 = (if truthy (obj_get (cells s r) ''Content-Type'')
                    then obj_get (cells s r) ''Content-Type'' else JStr ''application/json'')))
   \<and> ((headers opt = Mapping r
        \<and> (map_of (cells s r) ''Content-Type'' = None
             \<or> map_of (cells s r) ''Content-Type'' = Some (JStr [])))
      \<longrightarrow> (\<exists>s' c. httpRequest s opt = Inr (s', c)
             \<and> map_of (config c) ''data'' = Some (Data (JSON_stringify (data opt)))
             \<and> obj_get (cells s' r) ''Content-Type'' = JStr ''application/json''
             \<and> (\<forall>k. k \<noteq> ''Content-Type'' \<longrightarrow> map_of (cells s' r) k = map_of (cells s r) k)))"
proof (intro conjI impI)
  assume "headers opt = Mapping r"
  then show "\<exists>s' c. httpRequest s opt = Inr (s', c)
             \<and> map_of (config c) ''data''
                 = Some (Data (if truthy (obj_get (cells s r) ''Content-Type'') then data opt
                               else JSON_stringify (data opt)))
             \<and> obj_get (cells s' r) ''Content-Type''
                 = (if truthy (obj_get (cells s r) ''Content-Type'')
                    then obj_get (cells s r) ''Content-Type'' else JStr ''application/json'')"
    by (simp add: httpRequest_given cells_store_set_same obj_get_obj_set_same request_config_data)
next
  assume a: "headers opt = Mapping r
        \<and> (map_of (cells s r) ''Content-Type'' = None
             \<or> map_of (cells s r) ''Content-Type'' = Some (JStr []))"
  then have falsy: "\<not> truthy (obj_get (cells s r) ''Content-Type'')"
    by (auto simp: obj_get_def)
  from a falsy show "\<exists>s' c. httpRequest s opt = Inr (s', c)
             \<and> map_of (config c) ''data'' = Some (Data (JSON_stringify (data opt)))
             \<and> obj_get (cells s' r) ''Content-Type'' = JStr ''application/json''
             \<and> (\<forall>k. k \<noteq> ''Content-Type'' \<longrightarrow> map_of (cells s' r) k = map_of (cells s r) k)"
    by (simp add: httpRequest_given cells_store_set_same obj_get_obj_set_same map_of_obj_set request_config_data)
qed

theorem httpRequest_content_type_test_is_literal_truthiness_witness:
  "map_of (cells (empty_store\<lparr>cells := (cells empty_store)(0 := [(''content-type'', JStr ''text/plain'')]), fresh := 1\<rparr>) 0) ''Content-Type'' = None
   \<and> (\<exists>s' c. httpRequest (empty_store\<lparr>cells := (cells empty_store)(0 := [(''content-type'', JStr ''text/plain'')]), fresh := 1\<rparr>)
                 \<lparr>headers = Mapping 0, data = JStr ''a=1'',
                  others = [(''url'', Data (JStr ''/api'')), (''method'', Data (JStr ''POST''))]\<rparr>
               = Inr (s', c)
        \<and> map_of (config c) ''data'' = Some (Data (JStr [CHR 0x22, CHR ''a'', CHR ''='', CHR ''1'', CHR 0x22]))
        \<and> obj_get (cells s' 0) ''Content-Type'' = JStr ''application/json''
        \<and> obj_get (cells s' 0) ''content-type'' = JStr ''text/plain'')
   \<and> map_of (cells (empty_store\<lparr>cells := (cells empty_store)(0 := [(''Content-Type'', JStr [])]), fresh := 1\<rparr>) 0) ''Content-Type'' = Some (JStr [])
   \<and> (\<exists>s' c. httpRequest (empty_store\<lparr>cells := (cells empty_store)(0 := [(''Content-Type'', JStr [])]), fresh := 1\<rparr>)
                 \<lparr>headers = Mapping 0, data = JStr ''a=1'',
                  others = [(''url'', Data (JStr ''/api'')), (''method'', Data (JStr ''POST''))]\<rparr>
               = Inr (s', c)
        \<and> map_of (config c) ''data'' = Some (Data (JStr [CHR 0x22, CHR ''a'', CHR ''='', CHR ''1'', CHR 0x22]))
        \<and> obj_get (cells s' 0) ''Content-Type'' = JStr ''application/json'')"
proof -
  have encoded: "JSON_stringify (JStr ''a=1'') = JStr [CHR 0x22, CHR ''a'', CHR ''='', CHR ''1'', CHR 0x22]"
    by (simp add: JSON_stringify_def json_quote_def json_escape_def)
  show ?thesis
    using httpRequest_content_type_test_is_literal_truthiness
            [of "\<lparr>headers = Mapping 0, data = JStr ''a=1'',
                  others = [(''url'', Data (JStr ''/api'')), (''method'', Data (JStr ''POST''))]\<rparr>" 0
                "empty_store\<lparr>cells := (cells empty_store)(0 := [(''content-type'', JStr ''text/plain'')]), fresh := 1\<rparr>"]
          httpRequest_content_type_test_is_literal_truthiness
            [of "\<lparr>headers = Mapping 0, data = JStr ''a=1'',
                  others = [(''url'', Data (JStr ''/api'')), (''method'', Data (JStr ''POST''))]\<rparr>" 0
                "empty_store\<lparr>cells := (cells empty_store)(0 := [(''Content-Type'', JStr [])]), fresh := 1\<rparr>"]
    by (auto simp add: encoded obj_get_def)
qed


section \<open>Properties of the callback adapters\<close>

lemma spread_with_success: "map_of (spread_with opt f) ''success'' = Some (Callback f)"
  by (simp add: spread_with_def map_of_obj_set)

lemma spread_with_fail: "map_of (spread_with opt f) ''fail'' = Some (Callback Reject)"
  by (simp add: spread_with_def map_of_obj_set)

lemma host_fails_Reject:
  "map_of (config c) ''fail'' = Some (Callback Reject) \<Longrightarrow> host_fails c reason = Inr (Rejected reason)"
  by (simp add: host_fails_def host_calls_def)

lemmas literal_operations =
  alert_def showToast_def showLoading_def getAuthCode_def redirectTo_def navigateTo_def
  reLaunch_def switchTab_def setNavigationBar_def getLocation_def openLocation_def scan_def
  createGroupChat_def choosePhonebook_def chooseExternalUsers_def chooseUserFromList_def
  getStorage_def removeStorage_def getSystemInfoSync_part_000_def

lemmas spread_operations =
  confirm_def showActionSheet_def uploadFile_def downloadFile_def datePicker_def
  complexChoose_def chooseDepartments_def editExternalUser_def setStorage_def
  showToast_index_ts_def showLoading_index_ts_def showActionSheet_index_ts_def
  setNavigationBar_spread_def

text \<open>
  Every operation that wraps a host call in a promise, in every revision, installs
  \<^verbatim>\<open>reject\<close> itself as the \<^verbatim>\<open>fail\<close> callback: when the host calls it with a reason, the
  pending promise is rejected with that very reason. All operations but \<^verbatim>\<open>httpRequest\<close>
  write \<^verbatim>\<open>fail\<close> after the caller's options; for \<^verbatim>\<open>httpRequest\<close> this holds when the
  caller's object has no property named \<^verbatim>\<open>fail\<close>.
\<close>

lemma operations_reject_with_host_reason:
  "host_fails (alert opt) reason = Inr (Rejected reason)
   \<and> host_fails (confirm opt) reason = Inr (Rejected reason)
   \<and> host_fails (showToast opt) reason = Inr (Rejected reason)
   \<and> host_fails (showLoading opt) reason = Inr (Rejected reason)
   \<and> host_fails (showActionSheet opt) reason = Inr (Rejected reason)
   \<and> host_fails getAuthCode reason = Inr (Rejected reason)
   \<and> (\<forall>s' c. ''fail'' \<notin> fst ` set (others req) \<and> httpRequest s req = Inr (s', c)
          \<longrightarrow> host_fails c reason = Inr (Rejected reason))
   \<and> host_fails (uploadFile opt) reason = Inr (Rejected reason)
   \<and> host_fails (downloadFile opt) reason = Inr (Rejected reason)
   \<and> host_fails (redirectTo arg) reason = Inr (Rejected reason)
   \<and> host_fails (navigateTo arg) reason = Inr (Rejected reason)
   \<and> host_fails (reLaunch arg) reason = Inr (Rejected reason)
   \<and> host_fails (setNavigationBar opt) reason = Inr (Rejected reason)
   \<and> host_fails (switchTab arg) reason = Inr (Rejected reason)
   \<and> host_fails (datePicker opt) reason = Inr (Rejected reason)
   \<and> host_fails (getLocation opt) reason = Inr (Rejected reason)
   \<and> host_fails (openLocation opt) reason = Inr (Rejected reason)
   \<and> host_fails (scan arg) reason = Inr (Rejected reason)
   \<and> host_fails (complexChoose opt) reason = Inr (Rejected reason)
   \<and> host_fails (chooseDepartments opt) reason = Inr (Rejected reason)
   \<and> host_fails (createGroupChat arg) reason = Inr (Rejected reason)
   \<and> host_fails (choosePhonebook opt) reason = Inr (Rejected reason)
   \<and> host_fails (chooseExternalUsers opt) reason = Inr (Rejected reason)
   \<and> host_fails (editExternalUser opt) reason = Inr (Rejected reason)
   \<and> host_fails (chooseUserFromList opt) reason = Inr (Rejected reason)
   \<and> host_fails (setStorage opt) reason = Inr (Rejected reason)
   \<and> host_fails (getStorage arg) reason = Inr (Rejected reason)
   \<and> host_fails (removeStorage arg) reason = Inr (Rejected reason)
   \<and> host_fails (showToast_index_ts opt) reason = Inr (Rejected reason)
   \<and> host_fails (showLoading_index_ts opt) reason = Inr (Rejected reason)
   \<and> host_fails (showActionSheet_index_ts opt) reason = Inr (Rejected reason)
   \<and> host_fails (setNavigationBar_spread opt) reason = Inr (Rejected reason)
   \<and> host_fails getSystemInfoSync_part_000 reason = Inr (Rejected reason)"
proof -
  have lit: "\<And>e cfg. map_of cfg ''fail'' = Some (Callback Reject) \<Longrightarrow>
      host_fails \<lparr>entry = e, config = cfg\<rparr> reason = Inr (Rejected reason)"
    by (simp add: host_fails_Reject)
  have http: "\<forall>s' c. ''fail'' \<notin> fst ` set (others req) \<and> httpRequest s req = Inr (s', c)
      \<longrightarrow> host_fails c reason = Inr (Rejected reason)"
    using httpRequest_callbacks host_fails_Reject by blast
  show ?thesis
    using http
    by (simp add: literal_operations spread_operations lit spread_with_fail pick_def pick_default_def)
qed

text \<open>
  Claim C4. Every wrapped operation should reject its promise with the reason the host
  gives to the \<^verbatim>\<open>fail\<close> callback. The configuration literal of \<^verbatim>\<open>httpRequest\<close> spreads
  \<^verbatim>\<open>rest\<close> after \<^verbatim>\<open>fail: reject\<close>, where every other operation writes \<^verbatim>\<open>fail\<close> last, so for
  a caller's object that has a property \<^verbatim>\<open>fail\<close> of its own the host receives the caller's
  function: when the host calls it with a reason, the promise stays pending and is never
  rejected.
\<close>

theorem httpRequest_own_fail_key_never_rejects:
  "forwarded
     (httpRequest empty_store
        \<lparr>headers = Absent, data = JUndefined,
         others = [(''url'', Data (JStr ''/api'')), (''method'', Data (JStr ''GET'')),
                   (''fail'', Callback (Foreign 0))]\<rparr>)
     ''fail''
     = Some (Callback (Foreign 0))
   \<and> then_host_fails
     (httpRequest empty_store
        \<lparr>headers = Absent, data = JUndefined,
         others = [(''url'', Data (JStr ''/api'')), (''method'', Data (JStr ''GET'')),
                   (''fail'', Callback (Foreign 0))]\<rparr>)
     (JObj [(''error'', JNum 12)])
     = Inr Pending
   \<and> then_host_fails
     (httpRequest empty_store
        \<lparr>headers = Absent, data = JUndefined,
         others = [(''url'', Data (JStr ''/api'')), (''method'', Data (JStr ''GET'')),
                   (''fail'', Callback (Foreign 0))]\<rparr>)
     (JObj [(''error'', JNum 12)])
     \<noteq> Inr (Rejected (JObj [(''error'', JNum 12)]))"
  by (simp add: forwarded_def then_host_fails_def host_fails_def host_calls_def
        httpRequest_absent request_config_def rest_of_def js_order_def array_index_def is_digit_def)

lemma host_succeeds_ResolveField:
  "map_of (config c) ''success'' = Some (Callback (ResolveField f)) \<Longrightarrow>
     host_succeeds c (JObj res) = Inr (Fulfilled (obj_get res f))"
  by (simp add: host_succeeds_def host_calls_def)

lemma host_succeeds_ResolvePayload:
  "map_of (config c) ''success'' = Some (Callback ResolvePayload) \<Longrightarrow>
     host_succeeds c res = Inr (Fulfilled res)"
  by (simp add: host_succeeds_def host_calls_def)

text \<open>
  The action sheet of \<^verbatim>\<open>src/unnamed/part_002\<close> (lines 162 to 179) resolves with the
  \<^verbatim>\<open>index\<close> field of the payload, also when it is \<open>-1\<close>.
\<close>

lemma showActionSheet_resolves_index:
  "host_succeeds (showActionSheet opt) (JObj res) = Inr (Fulfilled (obj_get res ''index''))"
  by (simp add: host_succeeds_ResolveField showActionSheet_def spread_with_success)

lemma showActionSheet_cancel_is_not_a_rejection:
  "host_succeeds (showActionSheet opt) (JObj [(''index'', JNum (- 1))]) = Inr (Fulfilled (JNum (- 1)))"
  by (simp add: showActionSheet_resolves_index obj_get_def)

text \<open>
  Claim C5. The promise of \<^verbatim>\<open>showActionSheet\<close> should be fulfilled with the index itself.
  In the revision \<^verbatim>\<open>src/src/index.ts\<close> (lines 125 to 142) it is fulfilled with the whole
  payload instead: for the payload \<^verbatim>\<open>{index: -1}\<close> the result is that mapping and not the
  number \<open>-1\<close>.
\<close>

theorem showActionSheet_index_ts_resolves_whole_payload:
  "host_succeeds (showActionSheet_index_ts [(''items'', JArr [JStr ''a'', JStr ''b''])])
      (JObj [(''index'', JNum (- 1))])
     = Inr (Fulfilled (JObj [(''index'', JNum (- 1))]))
   \<and> host_succeeds (showActionSheet_index_ts [(''items'', JArr [JStr ''a'', JStr ''b''])])
      (JObj [(''index'', JNum (- 1))])
     \<noteq> Inr (Fulfilled (JNum (- 1)))"
  by (simp add: host_succeeds_ResolvePayload showActionSheet_index_ts_def spread_with_success)

text \<open>
  Claim C7. \<^verbatim>\<open>getStorage(key)\<close> forwards the key, and when the host calls the success
  callback with a payload mapping the promise is fulfilled with the \<^verbatim>\<open>data\<close> field of the
  payload and nothing else: whatever value the host put there (\<^verbatim>\<open>null\<close> included) is the
  result, and a missing field gives \<^verbatim>\<open>undefined\<close>; no default is substituted.
\<close>

theorem getStorage_resolves_data_field:
  "map_of (config (getStorage key)) ''key'' = Some (Data key)
   \<and> host_succeeds (getStorage key) (JObj res) = Inr (Fulfilled (obj_get res ''data''))
   \<and> (map_of res ''data'' = Some v \<longrightarrow> host_succeeds (getStorage key) (JObj res) = Inr (Fulfilled v))
   \<and> (map_of res ''data'' = None \<longrightarrow> host_succeeds (getStorage key) (JObj res) = Inr (Fulfilled JUndefined))"
  by (simp add: host_succeeds_ResolveField getStorage_def obj_get_def)

theorem getStorage_resolves_data_field_witness:
  "map_of [(''data'', JNull)] ''data'' = Some JNull
   \<and> host_succeeds (getStorage (JStr ''token'')) (JObj [(''data'', JNull)]) = Inr (Fulfilled JNull)
   \<and> host_succeeds (getStorage (JStr ''token'')) (JObj [(''data'', JObj [(''a'', JNum 1)]), (''extra'', JBool True)])
       = Inr (Fulfilled (JObj [(''a'', JNum 1)]))"
  using getStorage_resolves_data_field [of "JStr ''token''" "[(''data'', JNull)]" JNull]
        getStorage_resolves_data_field
          [of "JStr ''token''" "[(''data'', JObj [(''a'', JNum 1)]), (''extra'', JBool True)]"
              "JObj [(''a'', JNum 1)]"]
  by (simp add: obj_get_def)

text \<open>
  Claim C8. \<^verbatim>\<open>createGroupChat(users)\<close> forwards the users, and when the host calls the
  success callback with a payload mapping the promise is fulfilled with the \<^verbatim>\<open>id\<close> field as
  the host gave it; a list of strings is passed on as that list.
\<close>

theorem createGroupChat_resolves_id_field:
  "map_of (config (createGroupChat users)) ''users'' = Some (Data users)
   \<and> host_succeeds (createGroupChat users) (JObj res) = Inr (Fulfilled (obj_get res ''id''))
   \<and> (map_of res ''id'' = Some (JArr (map JStr ids)) \<longrightarrow>
        host_succeeds (createGroupChat users) (JObj res) = Inr (Fulfilled (JArr (map JStr ids))))"
  by (simp add: host_succeeds_ResolveField createGroupChat_def obj_get_def)

theorem createGroupChat_resolves_id_field_witness:
  "map_of [(''id'', JArr (map JStr [''chat1'', ''chat2''])), (''other'', JNum 1)] ''id''
     = Some (JArr (map JStr [''chat1'', ''chat2'']))
   \<and> host_succeeds (createGroupChat (JArr [JStr ''u1'', JStr ''u2'']))
        (JObj [(''id'', JArr (map JStr [''chat1'', ''chat2''])), (''other'', JNum 1)])
       = Inr (Fulfilled (JArr [JStr ''chat1'', JStr ''chat2'']))"
  using createGroupChat_resolves_id_field
          [of "JArr [JStr ''u1'', JStr ''u2'']"
              "[(''id'', JArr (map JStr [''chat1'', ''chat2''])), (''other'', JNum 1)]"
              "[''chat1'', ''chat2'']"]
  by (simp add: obj_get_def)


section \<open>Default values of the toast and loading operations\<close>

lemma distinct_js_order: "distinct kvs \<Longrightarrow> distinct (js_order kvs)"
  by (auto simp: js_order_def)

lemma map_of_js_order:
  assumes "distinct (map fst kvs)"
  shows "map_of (rev (js_order kvs)) = map_of kvs"
proof -
  from assms have d: "distinct kvs" and i: "inj_on fst (set kvs)"
    by (simp_all add: distinct_map)
  have "distinct (map fst (rev (js_order kvs)))"
    using d i by (simp add: distinct_map distinct_js_order set_js_order)
  moreover have "set (rev (js_order kvs)) = set kvs"
    by (simp add: set_js_order)
  ultimately show ?thesis
    using assms by (simp add: map_of_inject_set)
qed

lemma map_of_copy:
  "map_of (foldl (\<lambda>acc (k, v). obj_set k (Data v) acc) acc xs) k =
     (case map_of (rev xs) k of None \<Rightarrow> map_of acc k | Some v \<Rightarrow> Some (Data v))"
proof (induction xs arbitrary: acc)
  case Nil
  show ?case by simp
next
  case (Cons p xs)
  obtain k' v' where p: "p = (k', v')" by (cases p)
  show ?case
    by (simp add: p Cons.IH map_of_obj_set map_add_def split: option.splits)
qed

lemma keys_copy:
  "fst ` set (foldl (\<lambda>acc (k, v). obj_set k (Data v) acc) acc xs) = fst ` set acc \<union> fst ` set xs"
proof (induction xs arbitrary: acc)
  case Nil
  show ?case by simp
next
  case (Cons p xs)
  obtain k' v' where p: "p = (k', v')" by (cases p)
  show ?case
    by (simp add: p Cons.IH keys_obj_set)
qed

lemma spread_absent: "map_of opt k = None \<Longrightarrow> map_of (spread opt) k = None"
  by (simp add: map_of_eq_None_iff spread_def keys_copy set_js_order)

lemma spread_distinct:
  "distinct (map fst opt) \<Longrightarrow> map_of (spread opt) k = map_option Data (map_of opt k)"
  by (simp add: spread_def map_of_copy map_of_js_order split: option.splits)

lemma spread_with_other:
  "k \<noteq> ''success'' \<Longrightarrow> k \<noteq> ''fail'' \<Longrightarrow> map_of (spread_with opt f) k = map_of (spread opt) k"
  by (simp add: spread_with_def map_of_obj_set)

text \<open>
  Claim C6, as stated, fails on the revision \<^verbatim>\<open>src/src/index.ts\<close> (lines 77 to 89): a toast
  called with a content only is forwarded without \<^verbatim>\<open>type\<close> and \<^verbatim>\<open>duration\<close>.
\<close>

theorem showToast_index_ts_forwards_no_default:
  "\<not> (map_of (config (showToast_index_ts [(''content'', JStr ''hi'')])) ''type'' = Some (Data (JStr ''none''))
      \<and> map_of (config (showToast_index_ts [(''content'', JStr ''hi'')])) ''duration'' = Some (Data (JNum 2000)))"
  by (simp add: showToast_index_ts_def spread_with_other spread_absent)

text \<open>
  Claim C6, amended. In the revision with default values (\<^verbatim>\<open>src/unnamed/part_002\<close>, lines
  104 to 145) a toast called with \<^verbatim>\<open>type\<close> and \<^verbatim>\<open>duration\<close> missing or \<^verbatim>\<open>undefined\<close> is
  forwarded with \<^verbatim>\<open>type = "none"\<close> and \<^verbatim>\<open>duration = 2000\<close>, and a loading call with
  \<^verbatim>\<open>delay\<close> missing or \<^verbatim>\<open>undefined\<close> is forwarded with \<^verbatim>\<open>delay = 0\<close>. In the revision
  \<^verbatim>\<open>src/src/index.ts\<close> (lines 77 to 108) a toast called without the fields \<^verbatim>\<open>type\<close> and
  \<^verbatim>\<open>duration\<close> is forwarded without them, a loading call without the field \<^verbatim>\<open>delay\<close> is
  forwarded without it, and for options with distinct keys every field other than
  \<^verbatim>\<open>success\<close> and \<^verbatim>\<open>fail\<close> is forwarded with the caller's value, a missing field as
  missing.
\<close>

theorem toast_and_loading_defaults_by_revision:
  "((obj_get opt ''type'' = JUndefined \<and> obj_get opt ''duration'' = JUndefined) \<longrightarrow>
       map_of (config (showToast opt)) ''type'' = Some (Data (JStr ''none''))
     \<and> map_of (config (showToast opt)) ''duration'' = Some (Data (JNum 2000)))
   \<and> (obj_get opt ''delay'' = JUndefined \<longrightarrow>
       map_of (config (showLoading opt)) ''delay'' = Some (Data (JNum 0)))
   \<and> ((map_of opt ''type'' = None \<and> map_of opt ''duration'' = None) \<longrightarrow>
       map_of (config (showToast_index_ts opt)) ''type'' = None
     \<and> map_of (config (showToast_index_ts opt)) ''duration'' = None)
   \<and> (map_of opt ''delay'' = None \<longrightarrow>
       map_of (config (showLoading_index_ts opt)) ''delay'' = None)
   \<and> ((distinct (map fst opt) \<and> k \<noteq> ''success'' \<and> k \<noteq> ''fail'') \<longrightarrow>
       map_of (config (showToast_index_ts opt)) k = map_option Data (map_of opt k)
     \<and> map_of (config (showLoading_index_ts opt)) k = map_option Data (map_of opt k))"
proof (intro conjI impI)
  assume "obj_get opt ''type'' = JUndefined \<and> obj_get opt ''duration'' = JUndefined"
  then show "map_of (config (showToast opt)) ''type'' = Some (Data (JStr ''none''))"
    and "map_of (config (showToast opt)) ''duration'' = Some (Data (JNum 2000))"
    by (simp_all add: showToast_def pick_def pick_default_def)
next
  assume "obj_get opt ''delay'' = JUndefined"
  then show "map_of (config (showLoading opt)) ''delay'' = Some (Data (JNum 0))"
    by (simp add: showLoading_def pick_def pick_default_def)
next
  assume "map_of opt ''type'' = None \<and> map_of opt ''duration'' = None"
  then show "map_of (config (showToast_index_ts opt)) ''type'' = None"
    and "map_of (config (showToast_index_ts opt)) ''duration'' = None"
    by (simp_all add: showToast_index_ts_def spread_with_other spread_absent)
next
  assume "map_of opt ''delay'' = None"
  then show "map_of (config (showLoading_index_ts opt)) ''delay'' = None"
    by (simp add: showLoading_index_ts_def spread_with_other spread_absent)
next
  assume "distinct (map fst opt) \<and> k \<noteq> ''success'' \<and> k \<noteq> ''fail''"
  then show "map_of (config (showToast_index_ts opt)) k = map_option Data (map_of opt k)"
    and "map_of (config (showLoading_index_ts opt)) k = map_option Data (map_of opt k)"
    by (simp_all add: showToast_index_ts_def showLoading_index_ts_def spread_with_other spread_distinct)
qed

theorem toast_and_loading_defaults_by_revision_witness:
  "obj_get [(''content'', JStr ''hi'')] ''type'' = JUndefined
   \<and> obj_get [(''content'', JStr ''hi'')] ''duration'' = JUndefined
   \<and> obj_get [(''content'', JStr ''hi'')] ''delay'' = JUndefined
   \<and> distinct (map fst [(''content'', JStr ''hi'')])
   \<and> map_of (config (showToast [(''content'', JStr ''hi'')])) ''type'' = Some (Data (JStr ''none''))
   \<and> map_of (config (showToast [(''content'', JStr ''hi'')])) ''duration'' = Some (Data (JNum 2000))
   \<and> map_of (config (showLoading [(''content'', JStr ''hi'')])) ''delay'' = Some (Data (JNum 0))
   \<and> map_of (config (showToast_index_ts [(''content'', JStr ''hi'')])) ''type'' = None
   \<and> map_of (config (showToast_index_ts [(''content'', JStr ''hi'')])) ''duration'' = None
   \<and> map_of (config (showLoading_index_ts [(''content'', JStr ''hi'')])) ''delay'' = None
   \<and> map_of (config (showToast_index_ts [(''content'', JStr ''hi'')])) ''content'' = Some (Data (JStr ''hi''))"
  using toast_and_loading_defaults_by_revision [of "[(''content'', JStr ''hi'')]" "''content''"]
  by (simp add: obj_get_def)

end
